theory Spec2Isabelle
  imports Main
begin

section \<open>The multi-provider AI layer (aiProviders.js)\<close>

text \<open>
  The module keeps a registry of six provider descriptors, four SDK clients, and reads
  the process environment. Its exported entry point \<open>analyzeWithAI\<close> picks a provider,
  calls the provider's adapter and, when the adapter throws, calls itself again on another
  provider. Network calls are modelled by an environment \<open>world\<close>: the answer to the
  \<open>n\<close>-th outbound call of a run, given the request sent.
\<close>

subsection \<open>JavaScript values that may be absent\<close>

text \<open>An argument is a string, \<open>null\<close>, or omitted (\<open>undefined\<close>).\<close>

datatype jsval = Undefined | Null | Str string

text \<open>Truthiness as used by \<open>||\<close>: \<open>undefined\<close>, \<open>null\<close> and the empty string are falsy.\<close>

fun truthy :: "jsval \<Rightarrow> bool" where
  "truthy Undefined = False"
| "truthy Null = False"
| "truthy (Str s) = (s \<noteq> [])"

text \<open>A default parameter \<open>x = null\<close> replaces \<open>undefined\<close> only.\<close>

fun default_null :: "jsval \<Rightarrow> jsval" where
  "default_null Undefined = Null"
| "default_null v = v"

fun str_of :: "jsval \<Rightarrow> string" where
  "str_of (Str s) = s"
| "str_of v = []"

subsection \<open>Registry, environment and module state\<close>

record descriptor =
  name :: string
  available :: bool
  models :: "string list"
  cost :: string

text \<open>The object \<open>providers\<close>: six fields, declared in this order.\<close>

record registry =
  anthropic :: descriptor
  xai :: descriptor
  openai :: descriptor
  groq :: descriptor
  ollama :: descriptor
  huggingface :: descriptor

text \<open>\<open>process.env\<close>: each credential is a string or absent.\<close>

record env =
  ANTHROPIC_API_KEY :: "string option"
  XAI_API_KEY :: "string option"
  OPENAI_API_KEY :: "string option"
  GROQ_API_KEY :: "string option"
  HUGGINGFACE_API_KEY :: "string option"

text \<open>\<open>!!process.env.X\<close> and \<open>!process.env.X\<close>: set and not the empty string.\<close>

fun is_set :: "string option \<Rightarrow> bool" where
  "is_set None = False"
| "is_set (Some v) = (v \<noteq> [])"

text \<open>An SDK client, holding the key it was built with and its base URL when one is given.\<close>

datatype client = Client string "string option"

text \<open>
  A network request as the adapters build it, and the backend's answer: the call throws, or
  it returns a body of the expected shape, whose text and usage fields may be missing.
\<close>

datatype request =
    MessagesCreate jsval string
  | ChatCompletionsCreate string string string
  | OllamaVersion
  | OllamaGenerate string string
  | HFInference string string

record reply =
  reply_text :: "string option"
  reply_usage :: "nat option"

datatype response = Threw string | Replied reply

type_synonym world = "nat \<Rightarrow> request \<Rightarrow> response"

text \<open>
  The module-level variables. \<open>attempts\<close> and \<open>requests\<close> are observation logs that the
  source does not have: the adapters entered and the network calls made, in order.
\<close>

record module_state =
  process_env :: env
  providers :: registry
  anthropicClient :: "client option"
  openaiClient :: "client option"
  groqClient :: "client option"
  xaiClient :: "client option"
  attempts :: "string list"
  requests :: "request list"

text \<open>Module load (lines 10-79): the registry from the environment, then the clients.\<close>

definition initial_providers :: "env \<Rightarrow> registry" where
  "initial_providers e =
    \<lparr> anthropic = \<lparr> name = ''Anthropic Claude'', available = is_set (ANTHROPIC_API_KEY e),
          models = [''claude-3-5-sonnet-20241022'', ''claude-3-haiku-20240307'', ''claude-3-opus-20240229''],
          cost = ''paid_premium'' \<rparr>,
      xai = \<lparr> name = ''xAI Grok'', available = is_set (XAI_API_KEY e),
          models = [''grok-beta'', ''grok-vision-beta''], cost = ''paid_alternative'' \<rparr>,
      openai = \<lparr> name = ''OpenAI'', available = is_set (OPENAI_API_KEY e),
          models = [''gpt-3.5-turbo'', ''gpt-4'', ''gpt-4-turbo''], cost = ''paid'' \<rparr>,
      groq = \<lparr> name = ''Groq'', available = is_set (GROQ_API_KEY e),
          models = [''llama3-8b-8192'', ''llama3-70b-8192'', ''mixtral-8x7b-32768'', ''gemma-7b-it''],
          cost = ''free_tier'' \<rparr>,
      ollama = \<lparr> name = ''Ollama (Local)'', available = False,
          models = [''llama3'', ''mistral'', ''codellama'', ''phi3''], cost = ''free_local'' \<rparr>,
      huggingface = \<lparr> name = ''Hugging Face'', available = is_set (HUGGINGFACE_API_KEY e),
          models = [''microsoft/DialoGPT-large'', ''facebook/blenderbot-400M-distill''],
          cost = ''free_tier'' \<rparr> \<rparr>"

definition make_client :: "bool \<Rightarrow> string option \<Rightarrow> string option \<Rightarrow> client option" where
  "make_client avail key url = (if avail then Some (Client (case key of Some k \<Rightarrow> k | None \<Rightarrow> []) url) else None)"

definition load_module :: "env \<Rightarrow> module_state" where
  "load_module e =
    (let p = initial_providers e in
     \<lparr> process_env = e,
       providers = p,
       anthropicClient = make_client (available (anthropic p)) (ANTHROPIC_API_KEY e) None,
       openaiClient = make_client (available (openai p)) (OPENAI_API_KEY e) None,
       groqClient = make_client (available (groq p)) (GROQ_API_KEY e) None,
       xaiClient = make_client (available (xai p)) (XAI_API_KEY e) (Some ''https://api.x.ai/v1''),
       attempts = [],
       requests = [] \<rparr>)"

subsection \<open>Outbound calls\<close>

text \<open>One network call: the world answers the \<open>n\<close>-th call of the run; the call is logged.\<close>

definition call :: "world \<Rightarrow> request \<Rightarrow> module_state \<Rightarrow> response \<times> module_state" where
  "call w rq s = (w (length (requests s)) rq, s\<lparr>requests := requests s @ [rq]\<rparr>)"

definition enter :: "string \<Rightarrow> module_state \<Rightarrow> module_state" where
  "enter key s = s\<lparr>attempts := attempts s @ [key]\<rparr>"

definition set_ollama_available :: "bool \<Rightarrow> module_state \<Rightarrow> module_state" where
  "set_ollama_available b s =
     s\<lparr>providers := (providers s)\<lparr>ollama := (ollama (providers s))\<lparr>available := b\<rparr>\<rparr>\<rparr>"

text \<open>\<open>!!response.data\<close>: the body of the version query is present and not empty.\<close>

definition data_truthy :: "reply \<Rightarrow> bool" where
  "data_truthy r = is_set (reply_text r)"

text \<open>\<open>checkOllamaAvailability\<close> (lines 82-91).\<close>

definition checkOllamaAvailability :: "world \<Rightarrow> module_state \<Rightarrow> bool \<times> module_state" where
  "checkOllamaAvailability w s =
     (case call w OllamaVersion s of
        (Replied r, s') \<Rightarrow> (True, set_ollama_available (data_truthy r) s')
      | (Threw e, s') \<Rightarrow> (False, set_ollama_available False s'))"

subsection \<open>Selection\<close>

text \<open>\<open>Object.entries(providers)\<close>: the fields in declaration order.\<close>

definition entries :: "registry \<Rightarrow> (string \<times> descriptor) list" where
  "entries r =
     [(''anthropic'', anthropic r), (''xai'', xai r), (''openai'', openai r),
      (''groq'', groq r), (''ollama'', ollama r), (''huggingface'', huggingface r)]"

text \<open>\<open>getAvailableProviders\<close> (lines 94-98); a pair stands for \<open>{ key, ...provider }\<close>.\<close>

definition getAvailableProviders :: "module_state \<Rightarrow> (string \<times> descriptor) list" where
  "getAvailableProviders s = filter (\<lambda>(key, provider). available provider) (entries (providers s))"

text \<open>\<open>getBestProvider\<close> (lines 101-110); \<open>None\<close> is \<open>null\<close>.\<close>

definition getBestProvider :: "module_state \<Rightarrow> string option" where
  "getBestProvider s =
     (if available (anthropic (providers s)) then Some ''anthropic''
      else if available (xai (providers s)) then Some ''xai''
      else if available (ollama (providers s)) then Some ''ollama''
      else if available (groq (providers s)) then Some ''groq''
      else if available (huggingface (providers s)) then Some ''huggingface''
      else if available (openai (providers s)) then Some ''openai''
      else None)"

subsection \<open>Adapters\<close>

datatype error =
    NoProvidersAvailable
  | NotConfigured string
  | OllamaNotAvailable
  | UnknownProvider string
  | BackendError string

record result =
  content :: "string option"
  provider :: string
  model :: jsval
  usage :: "nat option"

type_synonym outcome = "(error + result) \<times> module_state"

text \<open>The body shared by the three chat-completion adapters once the client is known.\<close>

definition chat_completion ::
  "world \<Rightarrow> string \<Rightarrow> string \<Rightarrow> string \<Rightarrow> module_state \<Rightarrow> outcome" where
  "chat_completion w key mdl prompt s =
     (case call w (ChatCompletionsCreate key mdl prompt) s of
        (Threw e, s') \<Rightarrow> (Inl (BackendError e), s')
      | (Replied r, s') \<Rightarrow>
          (Inr \<lparr> content = reply_text r, provider = key, model = Str mdl, usage = reply_usage r \<rparr>, s'))"

text \<open>\<open>analyzeWithAnthropic\<close> (lines 113-135); the default model applies to \<open>undefined\<close> only.\<close>

definition analyzeWithAnthropic ::
  "world \<Rightarrow> string \<Rightarrow> string \<Rightarrow> jsval \<Rightarrow> module_state \<Rightarrow> outcome" where
  "analyzeWithAnthropic w content' prompt model' s0 =
     (let mdl = (case model' of Undefined \<Rightarrow> Str ''claude-3-5-sonnet-20241022'' | v \<Rightarrow> v);
          s = enter ''anthropic'' s0 in
      if anthropicClient s = None then (Inl (NotConfigured ''Anthropic''), s)
      else case call w (MessagesCreate mdl prompt) s of
             (Threw e, s') \<Rightarrow> (Inl (BackendError e), s')
           | (Replied r, s') \<Rightarrow>
               (Inr \<lparr> content = reply_text r, provider = ''anthropic'', model = mdl,
                      usage = reply_usage r \<rparr>, s'))"

text \<open>\<open>analyzeWithXAI\<close> (lines 138-163).\<close>

definition analyzeWithXAI :: "world \<Rightarrow> string \<Rightarrow> string \<Rightarrow> module_state \<Rightarrow> outcome" where
  "analyzeWithXAI w content' prompt s0 =
     (let s = enter ''xai'' s0 in
      if xaiClient s = None then (Inl (NotConfigured ''xAI''), s)
      else chat_completion w ''xai'' ''grok-beta'' prompt s)"

text \<open>\<open>analyzeWithOpenAI\<close> (lines 166-191).\<close>

definition analyzeWithOpenAI :: "world \<Rightarrow> string \<Rightarrow> string \<Rightarrow> module_state \<Rightarrow> outcome" where
  "analyzeWithOpenAI w content' prompt s0 =
     (let s = enter ''openai'' s0 in
      if openaiClient s = None then (Inl (NotConfigured ''OpenAI''), s)
      else chat_completion w ''openai'' ''gpt-3.5-turbo'' prompt s)"

text \<open>\<open>analyzeWithGroq\<close> (lines 194-219).\<close>

definition analyzeWithGroq :: "world \<Rightarrow> string \<Rightarrow> string \<Rightarrow> module_state \<Rightarrow> outcome" where
  "analyzeWithGroq w content' prompt s0 =
     (let s = enter ''groq'' s0 in
      if groqClient s = None then (Inl (NotConfigured ''Groq''), s)
      else chat_completion w ''groq'' ''llama3-8b-8192'' prompt s)"

text \<open>\<open>analyzeWithOllama\<close> (lines 222-245): probe first, then the generate call.\<close>

definition ollama_payload :: "string \<Rightarrow> string \<Rightarrow> string" where
  "ollama_payload prompt content' =
     prompt @ [CHR 0x0A, CHR 0x0A] @ ''Document content: '' @ take 3000 content'"

definition analyzeWithOllama :: "world \<Rightarrow> string \<Rightarrow> string \<Rightarrow> module_state \<Rightarrow> outcome" where
  "analyzeWithOllama w content' prompt s0 =
     (let (up, s) = checkOllamaAvailability w (enter ''ollama'' s0) in
      if \<not> available (ollama (providers s)) then (Inl OllamaNotAvailable, s)
      else case call w (OllamaGenerate ''llama3'' (ollama_payload prompt content')) s of
             (Threw e, s') \<Rightarrow> (Inl (BackendError e), s')
           | (Replied r, s') \<Rightarrow>
               (Inr \<lparr> content = reply_text r, provider = ''ollama'', model = Str ''llama3'',
                      usage = Some 0 \<rparr>, s'))"

text \<open>\<open>analyzeWithHuggingFace\<close> (lines 248-276).\<close>

definition analyzeWithHuggingFace :: "world \<Rightarrow> string \<Rightarrow> string \<Rightarrow> module_state \<Rightarrow> outcome" where
  "analyzeWithHuggingFace w content' prompt s0 =
     (let s = enter ''huggingface'' s0 in
      if \<not> is_set (HUGGINGFACE_API_KEY (process_env s))
      then (Inl (NotConfigured ''Hugging Face API key''), s)
      else case call w (HFInference ''microsoft/DialoGPT-large'' (take 1000 prompt)) s of
             (Threw e, s') \<Rightarrow> (Inl (BackendError e), s')
           | (Replied r, s') \<Rightarrow>
               (Inr \<lparr> content = Some (if is_set (reply_text r) then the (reply_text r)
                                      else ''Analysis completed with limited functionality''),
                      provider = ''huggingface'', model = Str ''DialoGPT-large'',
                      usage = Some 0 \<rparr>, s'))"

subsection \<open>The orchestrator\<close>

text \<open>Line 280: \<open>preferredProvider || getBestProvider()\<close>.\<close>

definition select_provider :: "jsval \<Rightarrow> module_state \<Rightarrow> string option" where
  "select_provider preferredProvider s =
     (if truthy (default_null preferredProvider) then Some (str_of preferredProvider)
      else getBestProvider s)"

text \<open>Lines 289-304: the \<open>switch\<close> over the provider key.\<close>

definition dispatch ::
  "world \<Rightarrow> string \<Rightarrow> string \<Rightarrow> string \<Rightarrow> jsval \<Rightarrow> module_state \<Rightarrow> outcome" where
  "dispatch w key content' prompt preferredModel s =
     (if key = ''anthropic'' then analyzeWithAnthropic w content' prompt preferredModel s
      else if key = ''xai'' then analyzeWithXAI w content' prompt s
      else if key = ''openai'' then analyzeWithOpenAI w content' prompt s
      else if key = ''groq'' then analyzeWithGroq w content' prompt s
      else if key = ''ollama'' then analyzeWithOllama w content' prompt s
      else if key = ''huggingface'' then analyzeWithHuggingFace w content' prompt s
      else (Inl (UnknownProvider key), s))"

text \<open>Line 309: the available providers whose key is not the one that just failed.\<close>

definition fallback_candidates :: "string \<Rightarrow> module_state \<Rightarrow> (string \<times> descriptor) list" where
  "fallback_candidates key s = filter (\<lambda>p. fst p \<noteq> key) (getAvailableProviders s)"

text \<open>
  \<open>analyzeWithAI\<close> (lines 279-317). The function calls itself in its \<open>catch\<close> block with
  the first fallback candidate and no model; a run that never returns has value \<open>None\<close>.
\<close>

partial_function (option) analyzeWithAI ::
  "world \<Rightarrow> string \<Rightarrow> string \<Rightarrow> jsval \<Rightarrow> jsval \<Rightarrow> module_state \<Rightarrow> outcome option" where
  "analyzeWithAI w content' prompt preferredProvider preferredModel s =
     (case select_provider preferredProvider s of
        None \<Rightarrow> Some (Inl NoProvidersAvailable, s)
      | Some key \<Rightarrow>
          (case dispatch w key content' prompt (default_null preferredModel) s of
             (Inr r, s') \<Rightarrow> Some (Inr r, s')
           | (Inl err, s') \<Rightarrow>
               (case fallback_candidates key s' of
                  [] \<Rightarrow> Some (Inl err, s')
                | p # ps \<Rightarrow> analyzeWithAI w content' prompt (Str (fst p)) Undefined s')))"

text \<open>\<open>initializeProviders\<close> (lines 320-334): probe the local backend, then report.\<close>

definition initializeProviders :: "world \<Rightarrow> module_state \<Rightarrow> module_state" where
  "initializeProviders w s = snd (checkOllamaAvailability w s)"

subsection \<open>Observations on a run\<close>

definition result_of :: "outcome option \<Rightarrow> (error + result) option" where
  "result_of run = map_option fst run"

definition attempts_of :: "outcome option \<Rightarrow> string list option" where
  "attempts_of run = map_option (\<lambda>out. attempts (snd out)) run"

definition requests_of :: "outcome option \<Rightarrow> request list option" where
  "requests_of run = map_option (\<lambda>out. requests (snd out)) run"

text \<open>The network calls an adapter made, given the state it started from.\<close>

definition new_requests :: "module_state \<Rightarrow> outcome \<Rightarrow> request list" where
  "new_requests s out = drop (length (requests s)) (requests (snd out))"

text \<open>The text and the model a request carries (the version query carries neither).\<close>

fun sent_text :: "request \<Rightarrow> string option" where
  "sent_text (MessagesCreate m t) = Some t"
| "sent_text (ChatCompletionsCreate k m t) = Some t"
| "sent_text OllamaVersion = None"
| "sent_text (OllamaGenerate m t) = Some t"
| "sent_text (HFInference m t) = Some t"

fun sent_model :: "request \<Rightarrow> jsval option" where
  "sent_model (MessagesCreate m t) = Some m"
| "sent_model (ChatCompletionsCreate k m t) = Some (Str m)"
| "sent_model OllamaVersion = None"
| "sent_model (OllamaGenerate m t) = Some (Str m)"
| "sent_model (HFInference m t) = Some (Str m)"

subsection \<open>The orders the specification speaks of\<close>

definition is_available :: "module_state \<Rightarrow> string \<Rightarrow> bool" where
  "is_available s key =
     (case map_of (entries (providers s)) key of Some d \<Rightarrow> available d | None \<Rightarrow> False)"

text \<open>The priority order as the specification states it, and the choice it describes.\<close>

definition priority_order :: "string list" where
  "priority_order = [''anthropic'', ''xai'', ''ollama'', ''groq'', ''huggingface'', ''openai'']"

definition spec_choose :: "module_state \<Rightarrow> string option" where
  "spec_choose s = find (is_available s) priority_order"

definition spec_fallback :: "string \<Rightarrow> module_state \<Rightarrow> string option" where
  "spec_fallback failed s = find (\<lambda>k. k \<noteq> failed \<and> is_available s k) priority_order"

text \<open>The order in which the registry declares its providers.\<close>

definition registry_order :: "string list" where
  "registry_order = [''anthropic'', ''xai'', ''openai'', ''groq'', ''ollama'', ''huggingface'']"

text \<open>The model each adapter other than the Anthropic one names in its request.\<close>

definition hardcoded_model :: "string \<Rightarrow> string" where
  "hardcoded_model key =
     (if key = ''xai'' then ''grok-beta''
      else if key = ''openai'' then ''gpt-3.5-turbo''
      else if key = ''groq'' then ''llama3-8b-8192''
      else if key = ''ollama'' then ''llama3''
      else ''microsoft/DialoGPT-large'')"

subsection \<open>Concrete environments and worlds\<close>

definition no_key :: env where
  "no_key = \<lparr> ANTHROPIC_API_KEY = None, XAI_API_KEY = None, OPENAI_API_KEY = None,
              GROQ_API_KEY = None, HUGGINGFACE_API_KEY = None \<rparr>"

definition ok_reply :: reply where
  "ok_reply = \<lparr> reply_text = Some ''ok'', reply_usage = None \<rparr>"

text \<open>Every call is answered.\<close>

definition world_up :: world where
  "world_up n rq = Replied ok_reply"

text \<open>Every call fails.\<close>

definition world_down :: world where
  "world_down n rq = Threw ''ECONNREFUSED''"

text \<open>The first \<open>k\<close> calls fail, the later ones are answered.\<close>

definition world_down_until :: "nat \<Rightarrow> world" where
  "world_down_until k n rq = (if n < k then Threw ''timeout'' else Replied ok_reply)"

text \<open>Only the first call is answered.\<close>

definition world_up_once :: world where
  "world_up_once n rq = (if n = 0 then Replied ok_reply else Threw ''rate limit'')"

definition env_anthropic :: env where
  "env_anthropic = no_key\<lparr> ANTHROPIC_API_KEY := Some ''sk-a'' \<rparr>"

definition env_anthropic_xai :: env where
  "env_anthropic_xai = no_key\<lparr> ANTHROPIC_API_KEY := Some ''sk-a'', XAI_API_KEY := Some ''sk-x'' \<rparr>"

definition env_groq :: env where
  "env_groq = no_key\<lparr> GROQ_API_KEY := Some ''sk-g'' \<rparr>"

definition env_openai_groq :: env where
  "env_openai_groq = no_key\<lparr> OPENAI_API_KEY := Some ''sk-o'', GROQ_API_KEY := Some ''sk-g'' \<rparr>"

definition env_anthropic_openai_groq :: env where
  "env_anthropic_openai_groq =
     no_key\<lparr> ANTHROPIC_API_KEY := Some ''sk-a'', OPENAI_API_KEY := Some ''sk-o'',
             GROQ_API_KEY := Some ''sk-g'' \<rparr>"

definition env_huggingface :: env where
  "env_huggingface = no_key\<lparr> HUGGINGFACE_API_KEY := Some ''hf-k'' \<rparr>"

text \<open>The module after start-up found the local backend running, with Groq configured.\<close>

definition started_with_ollama :: module_state where
  "started_with_ollama = initializeProviders world_up_once (load_module env_groq)"

text \<open>The available providers whose flag never changes after module load (all but the local one).\<close>

definition static_available :: "module_state \<Rightarrow> string list" where
  "static_available s =
     map fst (filter (\<lambda>p. fst p \<noteq> ''ollama'') (getAvailableProviders s))"

definition always_throws :: "world \<Rightarrow> bool" where
  "always_throws w = (\<forall>n rq. \<exists>e. w n rq = Threw e)"

text \<open>The key a call starts from, if any, is one of the six the \<open>switch\<close> knows.\<close>

definition recognised :: "jsval \<Rightarrow> module_state \<Rightarrow> bool" where
  "recognised pp s = (case select_provider pp s of None \<Rightarrow> True | Some key \<Rightarrow> key \<in> set registry_order)"

section \<open>Evaluation rules\<close>

lemmas adapter_defs =
  analyzeWithAnthropic_def analyzeWithXAI_def analyzeWithOpenAI_def analyzeWithGroq_def
  analyzeWithOllama_def analyzeWithHuggingFace_def chat_completion_def call_def enter_def
  checkOllamaAvailability_def set_ollama_available_def data_truthy_def ollama_payload_def

lemmas module_defs =
  load_module_def initial_providers_def make_client_def no_key_def initializeProviders_def

lemmas selection_defs =
  select_provider_def getBestProvider_def fallback_candidates_def getAvailableProviders_def
  entries_def dispatch_def

lemmas observation_defs =
  result_of_def attempts_of_def requests_of_def new_requests_def

lemmas world_defs =
  world_up_def world_down_def world_down_until_def world_up_once_def ok_reply_def

section \<open>Auxiliary facts\<close>

lemma none_best_iff: "(getBestProvider s = None) = (getAvailableProviders s = [])"
  by (simp add: getBestProvider_def getAvailableProviders_def entries_def)

lemma keys_entries: "map fst (entries r) = registry_order"
  by (simp add: entries_def registry_order_def)

lemma is_available_entries:
  "(k, d) \<in> set (entries (providers s)) \<Longrightarrow> is_available s k = available d"
  by (auto simp: is_available_def entries_def)

lemma filter_keys:
  "\<forall>p\<in>set xs. f (fst p) = available (snd p) \<Longrightarrow>
   map fst (filter (\<lambda>p. fst p \<noteq> key) (filter (\<lambda>(k, d). available d) xs)) =
     filter (\<lambda>k. k \<noteq> key \<and> f k) (map fst xs)"
  by (induction xs) auto

lemma candidates_registry_order:
  "map fst (fallback_candidates key s) =
     filter (\<lambda>k. k \<noteq> key \<and> is_available s k) registry_order"
  unfolding fallback_candidates_def getAvailableProviders_def
    keys_entries[symmetric, of "providers s"]
  by (rule filter_keys) (auto simp: is_available_entries)

lemma find_filter_hd: "find P xs = Some k \<Longrightarrow> \<exists>ys. filter P xs = k # ys"
  by (induction xs) (auto split: if_splits)

lemma analyzeWithAI_after_failure:
  assumes "select_provider pp s = Some key"
    and "dispatch w key c p (default_null pm) s = (Inl err, s')"
  shows "analyzeWithAI w c p pp pm s =
     (case fallback_candidates key s' of
        [] \<Rightarrow> Some (Inl err, s')
      | q # qs \<Rightarrow> analyzeWithAI w c p (Str (fst q)) Undefined s')"
  using assms by (subst analyzeWithAI.simps) simp

lemma analyzeWithAI_after_success:
  assumes "select_provider pp s = Some key"
    and "dispatch w key c p (default_null pm) s = (Inr r, s')"
  shows "analyzeWithAI w c p pp pm s = Some (Inr r, s')"
  using assms by (subst analyzeWithAI.simps) simp

subsection \<open>No adapter raises the unknown-provider error\<close>

lemma chat_completion_not_unknown:
  "fst (chat_completion w key mdl p s) \<noteq> Inl (UnknownProvider k')"
  by (simp add: chat_completion_def split: prod.splits response.splits)

lemma anthropic_not_unknown:
  "fst (analyzeWithAnthropic w c p m s) \<noteq> Inl (UnknownProvider k')"
  by (simp add: analyzeWithAnthropic_def Let_def split: prod.splits response.splits)

lemma xai_not_unknown: "fst (analyzeWithXAI w c p s) \<noteq> Inl (UnknownProvider k')"
  by (simp add: analyzeWithXAI_def Let_def chat_completion_not_unknown)

lemma openai_not_unknown: "fst (analyzeWithOpenAI w c p s) \<noteq> Inl (UnknownProvider k')"
  by (simp add: analyzeWithOpenAI_def Let_def chat_completion_not_unknown)

lemma groq_not_unknown: "fst (analyzeWithGroq w c p s) \<noteq> Inl (UnknownProvider k')"
  by (simp add: analyzeWithGroq_def Let_def chat_completion_not_unknown)

lemma ollama_not_unknown: "fst (analyzeWithOllama w c p s) \<noteq> Inl (UnknownProvider k')"
  by (simp add: analyzeWithOllama_def Let_def split: prod.splits response.splits)

lemma huggingface_not_unknown:
  "fst (analyzeWithHuggingFace w c p s) \<noteq> Inl (UnknownProvider k')"
  by (simp add: analyzeWithHuggingFace_def Let_def split: prod.splits response.splits)

lemma dispatch_known_not_unknown:
  "key \<in> set registry_order \<Longrightarrow> fst (dispatch w key c p m s) \<noteq> Inl (UnknownProvider k')"
  by (auto simp: registry_order_def dispatch_def anthropic_not_unknown xai_not_unknown
      openai_not_unknown groq_not_unknown ollama_not_unknown huggingface_not_unknown)

lemma candidates_known:
  assumes "q \<in> set (fallback_candidates key s)"
  shows "fst q \<in> set registry_order \<and> fst q \<noteq> []"
proof -
  from assms have "q \<in> set (entries (providers s))"
    by (simp add: fallback_candidates_def getAvailableProviders_def)
  then have "fst q \<in> set (map fst (entries (providers s)))" by (simp del: keys_entries)
  then have k: "fst q \<in> set registry_order" by (simp only: keys_entries)
  moreover from k have "fst q \<noteq> []" by (auto simp: registry_order_def)
  ultimately show ?thesis by simp
qed

lemma best_known: "getBestProvider s = Some key \<Longrightarrow> key \<in> set registry_order"
  by (auto simp: getBestProvider_def registry_order_def split: if_splits)

lemma never_unknown_aux:
  assumes run: "analyzeWithAI w c p pp pm s = Some y"
  shows "recognised pp s \<longrightarrow> (\<forall>k'. fst y \<noteq> Inl (UnknownProvider k'))"
proof (rule analyzeWithAI.raw_induct
    [where P = "\<lambda>w c p pp pm s y. recognised pp s \<longrightarrow> (\<forall>k'. fst y \<noteq> Inl (UnknownProvider k'))",
     OF _ run], goal_cases)
  case (1 f w c p pp pm s y)
  show ?case
  proof (intro impI allI)
    fix k'
    assume rec: "recognised pp s"
    show "fst y \<noteq> Inl (UnknownProvider k')"
    proof (cases "select_provider pp s")
      case None
      with 1(2) show ?thesis by auto
    next
      case (Some key)
      with rec have known: "key \<in> set registry_order" by (simp add: recognised_def)
      obtain r s' where d: "dispatch w key c p (default_null pm) s = (r, s')"
        by (cases "dispatch w key c p (default_null pm) s")
      show ?thesis
      proof (cases r)
        case (Inr res)
        with 1(2) Some d show ?thesis by auto
      next
        case (Inl err)
        have err: "err \<noteq> UnknownProvider k'"
          using dispatch_known_not_unknown[OF known, of w c p "default_null pm" s k'] d Inl
          by simp
        show ?thesis
        proof (cases "fallback_candidates key s'")
          case Nil
          with 1(2) Some d Inl err show ?thesis by auto
        next
          case (Cons q qs)
          then have q: "fst q \<in> set registry_order" "fst q \<noteq> []"
            using candidates_known[of q key s'] by simp_all
          have rec': "recognised (Str (fst q)) s'"
            using q by (simp add: recognised_def select_provider_def)
          have "f w c p (Str (fst q)) Undefined s' = Some y"
            using 1(2) Some d Inl Cons by simp
          from 1(1)[OF this] rec' show ?thesis by blast
        qed
      qed
    qed
  qed
qed

lemma unknown_dispatch:
  "k \<notin> set registry_order \<Longrightarrow> dispatch w k c p m s = (Inl (UnknownProvider k), s)"
  by (simp add: dispatch_def registry_order_def)

lemma unknown_candidates:
  assumes "k \<notin> set registry_order"
  shows "fallback_candidates k s = getAvailableProviders s"
proof -
  have "\<forall>q\<in>set (getAvailableProviders s). fst q \<noteq> k"
  proof
    fix q assume "q \<in> set (getAvailableProviders s)"
    then have "q \<in> set (entries (providers s))" by (simp add: getAvailableProviders_def)
    then have "fst q \<in> set (map fst (entries (providers s)))" by simp
    then have "fst q \<in> set registry_order" by (simp only: keys_entries)
    with assms show "fst q \<noteq> k" by auto
  qed
  then show ?thesis by (simp add: fallback_candidates_def)
qed

lemma available_known:
  assumes "getAvailableProviders s = q # qs"
  shows "fst q \<in> set registry_order \<and> fst q \<noteq> []"
proof -
  have "q \<in> set (getAvailableProviders s)" using assms by simp
  then have "q \<in> set (entries (providers s))" by (simp add: getAvailableProviders_def)
  then have "fst q \<in> set (map fst (entries (providers s)))" by simp
  then have k: "fst q \<in> set registry_order" by (simp only: keys_entries)
  moreover from k have "fst q \<noteq> []" by (auto simp: registry_order_def)
  ultimately show ?thesis by simp
qed

lemma call_throws:
  "always_throws w \<Longrightarrow> \<exists>e. call w rq s = (Threw e, s\<lparr>requests := requests s @ [rq]\<rparr>)"
  by (simp add: always_throws_def call_def)

lemma chat_completion_fails:
  assumes "always_throws w"
  shows "isl (fst (chat_completion w key mdl p s)) \<and> providers (snd (chat_completion w key mdl p s)) = providers s"
proof -
  from call_throws[OF assms] obtain e where
    "call w (ChatCompletionsCreate key mdl p) s = (Threw e, s\<lparr>requests := requests s @ [ChatCompletionsCreate key mdl p]\<rparr>)"
    by blast
  then show ?thesis by (simp add: chat_completion_def)
qed

lemma anthropic_fails:
  assumes "always_throws w"
  shows "isl (fst (analyzeWithAnthropic w c p m s)) \<and> providers (snd (analyzeWithAnthropic w c p m s)) = providers s"
proof -
  define mdl where "mdl = (case m of Undefined \<Rightarrow> Str ''claude-3-5-sonnet-20241022'' | v \<Rightarrow> v)"
  from call_throws[OF assms] obtain e where
    "call w (MessagesCreate mdl p) (enter ''anthropic'' s) =
       (Threw e, (enter ''anthropic'' s)\<lparr>requests := requests (enter ''anthropic'' s) @ [MessagesCreate mdl p]\<rparr>)"
    by blast
  then show ?thesis by (simp add: analyzeWithAnthropic_def Let_def mdl_def enter_def)
qed

lemma xai_fails:
  "always_throws w \<Longrightarrow> isl (fst (analyzeWithXAI w c p s)) \<and> providers (snd (analyzeWithXAI w c p s)) = providers s"
  by (simp add: analyzeWithXAI_def Let_def chat_completion_fails enter_def)

lemma openai_fails:
  "always_throws w \<Longrightarrow> isl (fst (analyzeWithOpenAI w c p s)) \<and> providers (snd (analyzeWithOpenAI w c p s)) = providers s"
  by (simp add: analyzeWithOpenAI_def Let_def chat_completion_fails enter_def)

lemma groq_fails:
  "always_throws w \<Longrightarrow> isl (fst (analyzeWithGroq w c p s)) \<and> providers (snd (analyzeWithGroq w c p s)) = providers s"
  by (simp add: analyzeWithGroq_def Let_def chat_completion_fails enter_def)

lemma huggingface_fails:
  assumes "always_throws w"
  shows "isl (fst (analyzeWithHuggingFace w c p s)) \<and> providers (snd (analyzeWithHuggingFace w c p s)) = providers s"
proof -
  from call_throws[OF assms] obtain e where
    "call w (HFInference ''microsoft/DialoGPT-large'' (take 1000 p)) (enter ''huggingface'' s) =
       (Threw e, (enter ''huggingface'' s)\<lparr>requests := requests (enter ''huggingface'' s) @ [HFInference ''microsoft/DialoGPT-large'' (take 1000 p)]\<rparr>)"
    by blast
  then show ?thesis by (simp add: analyzeWithHuggingFace_def Let_def enter_def)
qed

lemma ollama_fails:
  assumes "always_throws w"
  shows "isl (fst (analyzeWithOllama w c p s)) \<and>
     providers (snd (analyzeWithOllama w c p s)) =
       (providers s)\<lparr>ollama := (ollama (providers s))\<lparr>available := False\<rparr>\<rparr>"
proof -
  from call_throws[OF assms] obtain e where
    "call w OllamaVersion (enter ''ollama'' s) =
       (Threw e, (enter ''ollama'' s)\<lparr>requests := requests (enter ''ollama'' s) @ [OllamaVersion]\<rparr>)"
    by blast
  then show ?thesis
    by (simp add: analyzeWithOllama_def checkOllamaAvailability_def set_ollama_available_def enter_def)
qed

subsection \<open>Runs in a world where every call fails\<close>

lemma static_available_providers:
  "static_available s =
     map fst (filter (\<lambda>p. fst p \<noteq> ''ollama'') (filter (\<lambda>(k, d). available d) (entries (providers s))))"
  by (simp add: static_available_def getAvailableProviders_def)

lemma static_available_ollama_flag:
  "providers s' = (providers s)\<lparr>ollama := (ollama (providers s))\<lparr>available := b\<rparr>\<rparr> \<Longrightarrow>
   static_available s' = static_available s"
  by (simp add: static_available_providers entries_def)

lemma static_available_same:
  "providers s' = providers s \<Longrightarrow> static_available s' = static_available s"
  by (simp add: static_available_providers)

lemma dispatch_fails:
  assumes "always_throws w"
  shows "isl (fst (dispatch w key c p m s)) \<and>
         static_available (snd (dispatch w key c p m s)) = static_available s"
proof -
  have 1: "static_available (snd (analyzeWithAnthropic w c p m s)) = static_available s"
    using anthropic_fails[OF assms, of c p m s] by (intro static_available_same) simp
  have 2: "static_available (snd (analyzeWithXAI w c p s)) = static_available s"
    using xai_fails[OF assms, of c p s] by (intro static_available_same) simp
  have 3: "static_available (snd (analyzeWithOpenAI w c p s)) = static_available s"
    using openai_fails[OF assms, of c p s] by (intro static_available_same) simp
  have 4: "static_available (snd (analyzeWithGroq w c p s)) = static_available s"
    using groq_fails[OF assms, of c p s] by (intro static_available_same) simp
  have 5: "static_available (snd (analyzeWithHuggingFace w c p s)) = static_available s"
    using huggingface_fails[OF assms, of c p s] by (intro static_available_same) simp
  have 6: "static_available (snd (analyzeWithOllama w c p s)) = static_available s"
    using ollama_fails[OF assms, of c p s] by (intro static_available_ollama_flag) simp
  show ?thesis
    using anthropic_fails[OF assms, of c p m s] xai_fails[OF assms, of c p s]
      openai_fails[OF assms, of c p s] groq_fails[OF assms, of c p s]
      huggingface_fails[OF assms, of c p s] ollama_fails[OF assms, of c p s]
    by (simp add: dispatch_def 1 2 3 4 5 6)
qed

lemma distinct_static_available: "distinct (static_available s)"
proof -
  have "distinct (map fst (entries (providers s)))"
    by (simp only: keys_entries) (simp add: registry_order_def)
  then show ?thesis
    unfolding static_available_def getAvailableProviders_def
    by (intro distinct_map_filter)
qed

lemma two_static_candidates:
  assumes "2 \<le> length (static_available s)"
  shows "fallback_candidates key s \<noteq> []"
proof -
  from assms obtain a b zs where ab: "static_available s = a # b # zs"
    by (cases "static_available s"; cases "tl (static_available s)") auto
  with distinct_static_available[of s] have "a \<noteq> b" by simp
  then obtain k where k: "k \<in> set (static_available s)" "k \<noteq> key"
    using ab by (cases "a = key") auto
  then obtain q where "q \<in> set (getAvailableProviders s)" "fst q = k"
    by (auto simp: static_available_def)
  with k(2) have "q \<in> set (fallback_candidates key s)"
    by (simp add: fallback_candidates_def)
  then show ?thesis by auto
qed

lemma two_static_best:
  assumes "2 \<le> length (static_available s)"
  shows "select_provider pp s \<noteq> None"
proof -
  have "getAvailableProviders s \<noteq> []"
    using assms by (auto simp: static_available_def)
  then show ?thesis
    using none_best_iff[of s] by (simp add: select_provider_def)
qed

lemma never_returns_aux:
  assumes run: "analyzeWithAI w c p pp pm s = Some y"
  shows "\<not> (always_throws w \<and> 2 \<le> length (static_available s))"
proof (rule analyzeWithAI.raw_induct
    [where P = "\<lambda>w c p pp pm s y. \<not> (always_throws w \<and> 2 \<le> length (static_available s))",
     OF _ run], goal_cases)
  case (1 f w c p pp pm s y)
  show ?case
  proof
    assume a: "always_throws w \<and> 2 \<le> length (static_available s)"
    then obtain key where sel: "select_provider pp s = Some key"
      using two_static_best[of s pp] by auto
    obtain r s' where d: "dispatch w key c p (default_null pm) s = (r, s')"
      by (cases "dispatch w key c p (default_null pm) s")
    from dispatch_fails[of w key c p "default_null pm" s] a d
    obtain err where r: "r = Inl err" and st: "static_available s' = static_available s"
      by (cases r) auto
    from a st have "fallback_candidates key s' \<noteq> []"
      using two_static_candidates[of s' key] by simp
    then obtain q qs where q: "fallback_candidates key s' = q # qs"
      by (cases "fallback_candidates key s'") auto
    have "f w c p (Str (fst q)) Undefined s' = Some y"
      using 1(2) sel d r q by simp
    from 1(1)[OF this] a st show False by simp
  qed
qed


subsection \<open>The requests each adapter sends\<close>

lemma new_requests_enter:
  "new_requests s (r, (enter key s)\<lparr>requests := requests s @ rqs\<rparr>) = rqs"
  by (simp add: new_requests_def enter_def)

lemma chat_completion_requests:
  "new_requests s (chat_completion w key mdl p (enter k s)) = [ChatCompletionsCreate key mdl p]"
  by (simp add: chat_completion_def call_def new_requests_def enter_def split: response.splits)

lemma anthropic_requests:
  "new_requests s (analyzeWithAnthropic w c p m s) =
     (if anthropicClient s = None then []
      else [MessagesCreate (case m of Undefined \<Rightarrow> Str ''claude-3-5-sonnet-20241022'' | v \<Rightarrow> v) p])"
  by (simp add: analyzeWithAnthropic_def Let_def call_def new_requests_def enter_def
      split: response.splits)

lemma xai_requests:
  "new_requests s (analyzeWithXAI w c p s) =
     (if xaiClient s = None then [] else [ChatCompletionsCreate ''xai'' ''grok-beta'' p])"
  by (simp add: analyzeWithXAI_def Let_def chat_completion_requests)
     (simp add: new_requests_def enter_def)

lemma openai_requests:
  "new_requests s (analyzeWithOpenAI w c p s) =
     (if openaiClient s = None then [] else [ChatCompletionsCreate ''openai'' ''gpt-3.5-turbo'' p])"
  by (simp add: analyzeWithOpenAI_def Let_def chat_completion_requests)
     (simp add: new_requests_def enter_def)

lemma groq_requests:
  "new_requests s (analyzeWithGroq w c p s) =
     (if groqClient s = None then [] else [ChatCompletionsCreate ''groq'' ''llama3-8b-8192'' p])"
  by (simp add: analyzeWithGroq_def Let_def chat_completion_requests)
     (simp add: new_requests_def enter_def)

lemma huggingface_requests:
  "new_requests s (analyzeWithHuggingFace w c p s) =
     (if is_set (HUGGINGFACE_API_KEY (process_env s))
      then [HFInference ''microsoft/DialoGPT-large'' (take 1000 p)] else [])"
  by (simp add: analyzeWithHuggingFace_def Let_def call_def new_requests_def enter_def
      split: response.splits)

lemma ollama_requests:
  "new_requests s (analyzeWithOllama w c p s) =
     OllamaVersion #
     (if available (ollama (providers (snd (checkOllamaAvailability w (enter ''ollama'' s)))))
      then [OllamaGenerate ''llama3'' (p @ [CHR 0x0A, CHR 0x0A] @ ''Document content: '' @ take 3000 c)]
      else [])"
  by (simp add: analyzeWithOllama_def checkOllamaAvailability_def set_ollama_available_def
      ollama_payload_def call_def new_requests_def enter_def split: response.splits prod.splits)

lemma unknown_requests:
  "new_requests s (Inl (UnknownProvider key), s) = []"
  by (simp add: new_requests_def)

section \<open>C1: attempts per call\<close>

text \<open>
  C1. The claim is that one call makes at most two adapter attempts and never tries the
  same provider twice. The \<open>catch\<close> block excludes only the provider that has just
  failed and then calls \<open>analyzeWithAI\<close> again, whose own \<open>catch\<close> block does the same,
  so the provider that failed first is a candidate again. With Anthropic and xAI
  configured, when the first two network calls time out and the third is answered, one
  call enters the adapters anthropic, xai, anthropic: three attempts, Anthropic twice.
\<close>

theorem fallback_revisits_failed_provider:
  "result_of (analyzeWithAI (world_down_until 2) ''doc'' ''ask'' Undefined Undefined
       (load_module env_anthropic_xai)) =
     Some (Inr \<lparr>content = Some ''ok'', provider = ''anthropic'', model = Null, usage = None\<rparr>) \<and>
   attempts_of (analyzeWithAI (world_down_until 2) ''doc'' ''ask'' Undefined Undefined
       (load_module env_anthropic_xai)) =
     Some [''anthropic'', ''xai'', ''anthropic'']"
  by (simp add: analyzeWithAI.simps adapter_defs module_defs selection_defs observation_defs
      world_defs Let_def env_anthropic_xai_def)

text \<open>
  When every network call fails and two providers with a credential are available, the
  call never returns: each failure finds the other provider as a candidate.
\<close>

lemma never_returns:
  "always_throws w \<Longrightarrow> 2 \<le> length (static_available s) \<Longrightarrow> analyzeWithAI w c p pp pm s = None"
  using never_returns_aux[of w c p pp pm s] by (cases "analyzeWithAI w c p pp pm s") auto

lemma never_returns_instance:
  "analyzeWithAI world_down ''doc'' ''ask'' Undefined Undefined (load_module env_anthropic_xai) = None"
proof -
  have a: "always_throws world_down" by (simp add: always_throws_def world_down_def)
  have b: "2 \<le> length (static_available (load_module env_anthropic_xai))"
    by (simp add: static_available_def module_defs selection_defs env_anthropic_xai_def)
  show ?thesis by (rule never_returns[OF a b])
qed

section \<open>C2: the error surfaced\<close>

text \<open>
  C2, as the code has it. When the adapter of the selected provider fails and no fallback
  candidate exists, the call fails with that adapter's error. When a candidate exists, the
  call returns whatever the nested call on the first candidate returns: its result, or
  the error that nested call ends with.
\<close>

theorem surfaced_after_primary_failure:
  assumes "select_provider pp s = Some key"
    and "dispatch w key c p (default_null pm) s = (Inl err, s')"
  shows "result_of (analyzeWithAI w c p pp pm s) =
     (case fallback_candidates key s' of
        [] \<Rightarrow> Some (Inl err)
      | q # qs \<Rightarrow> result_of (analyzeWithAI w c p (Str (fst q)) Undefined s'))"
  by (simp add: analyzeWithAI_after_failure[OF assms] result_of_def split: list.splits)

theorem surfaced_after_primary_failure_witness:
  "select_provider Undefined (load_module env_anthropic) = Some ''anthropic'' \<and>
   dispatch world_down ''anthropic'' ''doc'' ''ask'' (default_null Undefined) (load_module env_anthropic) =
     (Inl (BackendError ''ECONNREFUSED''),
      snd (dispatch world_down ''anthropic'' ''doc'' ''ask'' Null (load_module env_anthropic))) \<and>
   fallback_candidates ''anthropic''
     (snd (dispatch world_down ''anthropic'' ''doc'' ''ask'' Null (load_module env_anthropic))) = [] \<and>
   result_of (analyzeWithAI world_down ''doc'' ''ask'' Undefined Undefined (load_module env_anthropic)) =
     Some (Inl (BackendError ''ECONNREFUSED''))"
proof -
  have a: "select_provider Undefined (load_module env_anthropic) = Some ''anthropic''"
    by (simp add: module_defs selection_defs env_anthropic_def)
  have b: "dispatch world_down ''anthropic'' ''doc'' ''ask'' (default_null Undefined)
        (load_module env_anthropic) =
     (Inl (BackendError ''ECONNREFUSED''),
      snd (dispatch world_down ''anthropic'' ''doc'' ''ask'' Null (load_module env_anthropic)))"
    by (simp add: adapter_defs module_defs selection_defs world_defs Let_def env_anthropic_def)
  have c: "fallback_candidates ''anthropic''
     (snd (dispatch world_down ''anthropic'' ''doc'' ''ask'' Null (load_module env_anthropic))) = []"
    by (simp add: adapter_defs module_defs selection_defs world_defs Let_def env_anthropic_def)
  show ?thesis
    using surfaced_after_primary_failure [OF a b] a b c by simp
qed

text \<open>
  C2 as stated fails when the fallback fails too. Start-up found the local backend
  running and Groq is configured. The call selects Ollama, whose probe now fails, so the
  primary error is "Ollama not available"; the fallback Groq fails with "rate limit", no
  candidate is left, and the caller sees the Groq error.
\<close>

theorem fallback_error_surfaced_counterexample:
  "getBestProvider started_with_ollama = Some ''ollama'' \<and>
   fst (dispatch world_up_once ''ollama'' ''doc'' ''ask'' Null started_with_ollama) =
     Inl OllamaNotAvailable \<and>
   attempts_of (analyzeWithAI world_up_once ''doc'' ''ask'' Undefined Undefined started_with_ollama) =
     Some [''ollama'', ''groq''] \<and>
   result_of (analyzeWithAI world_up_once ''doc'' ''ask'' Undefined Undefined started_with_ollama) =
     Some (Inl (BackendError ''rate limit''))"
  by (simp add: analyzeWithAI.simps adapter_defs module_defs selection_defs observation_defs
      world_defs Let_def env_groq_def started_with_ollama_def)

section \<open>C3: a preferred provider\<close>

text \<open>
  C3, as the code has it. A preferred key that is not empty is the provider selected,
  whether or not that provider is available: its adapter is called first, its result is
  returned when it succeeds, and only when it fails does the call move to the first
  fallback candidate (or fail with the adapter's error when there is none).
\<close>

theorem preferred_key_is_selected:
  assumes "k \<noteq> []"
  shows "select_provider (Str k) s = Some k \<and>
    analyzeWithAI w c p (Str k) pm s =
      (case dispatch w k c p (default_null pm) s of
         (Inr r, s') \<Rightarrow> Some (Inr r, s')
       | (Inl err, s') \<Rightarrow>
           (case fallback_candidates k s' of
              [] \<Rightarrow> Some (Inl err, s')
            | q # qs \<Rightarrow> analyzeWithAI w c p (Str (fst q)) Undefined s'))"
  using assms
  by (subst analyzeWithAI.simps) (simp add: select_provider_def split: prod.splits sum.splits)

theorem preferred_key_is_selected_witness:
  "''openai'' \<noteq> [] \<and>
   select_provider (Str ''openai'') (load_module env_openai_groq) = Some ''openai'' \<and>
   analyzeWithAI world_up ''doc'' ''ask'' (Str ''openai'') Undefined (load_module env_openai_groq) =
     Some (dispatch world_up ''openai'' ''doc'' ''ask'' Null (load_module env_openai_groq))"
proof -
  have a: "''openai'' \<noteq> []" by simp
  have d: "isl (fst (dispatch world_up ''openai'' ''doc'' ''ask'' Null (load_module env_openai_groq))) = False"
    by (simp add: adapter_defs module_defs selection_defs world_defs Let_def env_openai_groq_def)
  show ?thesis
    using preferred_key_is_selected [OF a, of "load_module env_openai_groq" world_up "''doc''"
        "''ask''" Undefined] d
    by (auto split: prod.splits sum.splits)
qed

text \<open>
  With no preference (omitted, \<open>null\<close> or empty) the selection is \<open>getBestProvider\<close>.
\<close>

lemma no_preference_is_getBestProvider:
  "select_provider Undefined s = getBestProvider s \<and>
   select_provider Null s = getBestProvider s \<and>
   select_provider (Str []) s = getBestProvider s"
  by (simp add: select_provider_def)

text \<open>
  C3 as stated fails for an unavailable preferred provider. With OpenAI and Groq
  configured and the preference \<open>huggingface\<close> (no credential), the selection is
  \<open>huggingface\<close>, not the priority choice \<open>groq\<close>; its adapter is entered and fails, and the
  call is then served by OpenAI.
\<close>

theorem unavailable_preference_selected_counterexample:
  "\<not> available (huggingface (providers (load_module env_openai_groq))) \<and>
   getBestProvider (load_module env_openai_groq) = Some ''groq'' \<and>
   select_provider (Str ''huggingface'') (load_module env_openai_groq) = Some ''huggingface'' \<and>
   attempts_of (analyzeWithAI world_up ''doc'' ''ask'' (Str ''huggingface'') Undefined
       (load_module env_openai_groq)) = Some [''huggingface'', ''openai'']"
  by (simp add: analyzeWithAI.simps adapter_defs module_defs selection_defs observation_defs
      world_defs Let_def env_openai_groq_def)

section \<open>C4: the fallback provider\<close>

text \<open>
  C4, as the code has it. When the adapter of the selected provider fails, the fallback is
  the first provider in the order the registry declares them (anthropic, xai, openai,
  groq, ollama, huggingface) that is available after the failure and is not the provider
  that has just failed; the call continues as a call preferring that provider, with no
  model.
\<close>

theorem fallback_is_first_in_registry_order:
  assumes "select_provider pp s = Some key"
    and "dispatch w key c p (default_null pm) s = (Inl err, s')"
    and "find (\<lambda>k. k \<noteq> key \<and> is_available s' k) registry_order = Some k'"
  shows "analyzeWithAI w c p pp pm s = analyzeWithAI w c p (Str k') Undefined s'"
proof -
  from find_filter_hd[OF assms(3)] obtain ys where
    ys: "filter (\<lambda>k. k \<noteq> key \<and> is_available s' k) registry_order = k' # ys"
    by blast
  have m: "map fst (fallback_candidates key s') = k' # ys"
    by (simp only: candidates_registry_order ys)
  then obtain q qs where q: "fallback_candidates key s' = q # qs" and k: "fst q = k'"
    by (cases "fallback_candidates key s'") simp_all
  show ?thesis
    by (simp only: analyzeWithAI_after_failure[OF assms(1,2)] q k list.case)
qed

theorem fallback_is_first_in_registry_order_witness:
  "select_provider Undefined (load_module env_anthropic_openai_groq) = Some ''anthropic'' \<and>
   dispatch (world_down_until 1) ''anthropic'' ''doc'' ''ask'' (default_null Undefined)
       (load_module env_anthropic_openai_groq) =
     (Inl (BackendError ''timeout''),
      snd (dispatch (world_down_until 1) ''anthropic'' ''doc'' ''ask'' Null
             (load_module env_anthropic_openai_groq))) \<and>
   find (\<lambda>k. k \<noteq> ''anthropic'' \<and>
           is_available (snd (dispatch (world_down_until 1) ''anthropic'' ''doc'' ''ask'' Null
             (load_module env_anthropic_openai_groq))) k) registry_order = Some ''openai'' \<and>
   analyzeWithAI (world_down_until 1) ''doc'' ''ask'' Undefined Undefined
       (load_module env_anthropic_openai_groq) =
     analyzeWithAI (world_down_until 1) ''doc'' ''ask'' (Str ''openai'') Undefined
       (snd (dispatch (world_down_until 1) ''anthropic'' ''doc'' ''ask'' Null
             (load_module env_anthropic_openai_groq)))"
proof -
  have a: "select_provider Undefined (load_module env_anthropic_openai_groq) = Some ''anthropic''"
    by (simp add: module_defs selection_defs env_anthropic_openai_groq_def)
  have b: "dispatch (world_down_until 1) ''anthropic'' ''doc'' ''ask'' (default_null Undefined)
       (load_module env_anthropic_openai_groq) =
     (Inl (BackendError ''timeout''),
      snd (dispatch (world_down_until 1) ''anthropic'' ''doc'' ''ask'' Null
             (load_module env_anthropic_openai_groq)))"
    by (simp add: adapter_defs module_defs selection_defs world_defs Let_def
        env_anthropic_openai_groq_def)
  have c: "find (\<lambda>k. k \<noteq> ''anthropic'' \<and>
           is_available (snd (dispatch (world_down_until 1) ''anthropic'' ''doc'' ''ask'' Null
             (load_module env_anthropic_openai_groq))) k) registry_order = Some ''openai''"
    by (simp add: adapter_defs module_defs selection_defs world_defs Let_def
        env_anthropic_openai_groq_def registry_order_def is_available_def)
  show ?thesis
    using fallback_is_first_in_registry_order [OF a b c] a b c by simp
qed

text \<open>
  C4 as stated fails: the fallback does not follow the priority order of
  \<open>getBestProvider\<close>. With Anthropic, OpenAI and Groq configured and Anthropic failing,
  the priority order over the remaining providers gives \<open>groq\<close>, but the candidates are
  \<open>openai, groq\<close> and the call is served by OpenAI.
\<close>

theorem fallback_not_by_priority_counterexample:
  "spec_fallback ''anthropic''
     (snd (dispatch (world_down_until 1) ''anthropic'' ''doc'' ''ask'' Null
            (load_module env_anthropic_openai_groq))) = Some ''groq'' \<and>
   map fst (fallback_candidates ''anthropic''
     (snd (dispatch (world_down_until 1) ''anthropic'' ''doc'' ''ask'' Null
            (load_module env_anthropic_openai_groq)))) = [''openai'', ''groq''] \<and>
   attempts_of (analyzeWithAI (world_down_until 1) ''doc'' ''ask'' Undefined Undefined
       (load_module env_anthropic_openai_groq)) = Some [''anthropic'', ''openai''] \<and>
   result_of (analyzeWithAI (world_down_until 1) ''doc'' ''ask'' Undefined Undefined
       (load_module env_anthropic_openai_groq)) =
     Some (Inr \<lparr>content = Some ''ok'', provider = ''openai'', model = Str ''gpt-3.5-turbo'',
                usage = None\<rparr>)"
  by (simp add: analyzeWithAI.simps adapter_defs module_defs selection_defs observation_defs
      world_defs Let_def env_anthropic_openai_groq_def spec_fallback_def priority_order_def
      is_available_def)

section \<open>C5: selection without a preference\<close>

text \<open>
  C5. With no preference, \<open>getBestProvider\<close> returns the first provider of the order
  anthropic, xai, ollama, groq, huggingface, openai whose \<open>available\<close> flag is set: it
  is the choice the specification describes, for every state of the registry, and it is
  \<open>null\<close> exactly when the list of available providers is empty. The result depends on
  the flags only, so it follows them when they change.
\<close>

theorem getBestProvider_highest_priority:
  "getBestProvider s = spec_choose s \<and>
   (getBestProvider s = None) = (getAvailableProviders s = [])"
  by (simp add: getBestProvider_def spec_choose_def priority_order_def is_available_def
      entries_def getAvailableProviders_def)

section \<open>C6: no provider available\<close>

text \<open>
  C6, as the code has it. When no provider is available and the caller names no
  provider (the argument is omitted, \<open>null\<close> or empty), \<open>getBestProvider\<close> returns
  \<open>null\<close> and \<open>analyzeWithAI\<close> fails with the no-provider error in the state it started
  from: no adapter was entered and no network call was made.
\<close>

theorem no_provider_without_preference:
  "getAvailableProviders s = [] \<Longrightarrow> \<not> truthy (default_null pp) \<Longrightarrow>
   getBestProvider s = None \<and>
   analyzeWithAI w c p pp pm s = Some (Inl NoProvidersAvailable, s)"
  using none_best_iff[of s] by (simp add: analyzeWithAI.simps select_provider_def)

theorem no_provider_without_preference_witness:
  "getAvailableProviders (load_module no_key) = [] \<and> \<not> truthy (default_null Undefined) \<and>
   getBestProvider (load_module no_key) = None \<and>
   analyzeWithAI world_up ''doc'' ''ask'' Undefined Undefined (load_module no_key) =
     Some (Inl NoProvidersAvailable, load_module no_key)"
proof -
  have a: "getAvailableProviders (load_module no_key) = []"
    by (simp add: module_defs selection_defs)
  have b: "\<not> truthy (default_null Undefined)" by simp
  show ?thesis
    using no_provider_without_preference [OF a b, of world_up "''doc''" "''ask''" Undefined] a b
    by simp
qed

text \<open>
  C6 as stated fails when the caller names a provider: with every flag false and the
  preference \<open>ollama\<close>, the adapter is entered, probes the local backend, finds it running
  and returns its answer after two network calls.
\<close>

theorem no_provider_with_preference_counterexample:
  "getAvailableProviders (load_module no_key) = [] \<and>
   result_of (analyzeWithAI world_up ''doc'' ''ask'' (Str ''ollama'') Undefined (load_module no_key)) =
     Some (Inr \<lparr>content = Some ''ok'', provider = ''ollama'', model = Str ''llama3'',
                usage = Some 0\<rparr>) \<and>
   requests_of (analyzeWithAI world_up ''doc'' ''ask'' (Str ''ollama'') Undefined (load_module no_key)) =
     Some [OllamaVersion, OllamaGenerate ''llama3'' (ollama_payload ''ask'' ''doc'')]"
  by (simp add: analyzeWithAI.simps adapter_defs module_defs selection_defs observation_defs
      world_defs Let_def)

section \<open>C7: what is truncated\<close>

text \<open>
  C7, as the code has it. Every request that carries text carries: for the Ollama adapter
  the whole prompt, a separator, and the first 3000 characters of the document; for the
  Hugging Face adapter the first 1000 characters of the prompt and nothing of the
  document argument; for the four other adapters the whole prompt and nothing of the
  document argument.
\<close>

theorem text_sent_by_adapters:
  "list_all (\<lambda>rq. sent_text rq = None \<or>
       sent_text rq = Some
         (if key = ''ollama''
          then p @ [CHR 0x0A, CHR 0x0A] @ ''Document content: '' @ take 3000 c
          else if key = ''huggingface'' then take 1000 p
          else p))
     (new_requests s (dispatch w key c p m s))"
  by (simp add: dispatch_def anthropic_requests xai_requests openai_requests groq_requests
      huggingface_requests ollama_requests unknown_requests)

theorem text_sent_by_adapters_witness:
  "new_requests (load_module no_key)
     (dispatch world_up ''ollama'' (replicate 3001 CHR ''d'') ''ask'' Null (load_module no_key)) =
     [OllamaVersion,
      OllamaGenerate ''llama3''
        (''ask'' @ [CHR 0x0A, CHR 0x0A] @ ''Document content: '' @ replicate 3000 CHR ''d'')] \<and>
   list_all (\<lambda>rq. sent_text rq = None \<or>
       sent_text rq = Some
         (''ask'' @ [CHR 0x0A, CHR 0x0A] @ ''Document content: '' @ replicate 3000 CHR ''d''))
     (new_requests (load_module no_key)
       (dispatch world_up ''ollama'' (replicate 3001 CHR ''d'') ''ask'' Null (load_module no_key)))"
proof -
  have a: "new_requests (load_module no_key)
     (dispatch world_up ''ollama'' (replicate 3001 CHR ''d'') ''ask'' Null (load_module no_key)) =
     [OllamaVersion,
      OllamaGenerate ''llama3''
        (''ask'' @ [CHR 0x0A, CHR 0x0A] @ ''Document content: '' @ replicate 3000 CHR ''d'')]"
    by (simp add: adapter_defs module_defs selection_defs observation_defs world_defs Let_def)
  show ?thesis
    using text_sent_by_adapters [of "''ollama''" "''ask''" "replicate 3001 CHR ''d''"
        "load_module no_key" world_up Null] a
    by simp
qed

text \<open>
  C7 as stated fails for the Hugging Face adapter: it cuts the prompt, not the document.
  With a document and a prompt of 1001 characters each, the only request carries the
  first 1000 characters of the prompt, which is not the prompt.
\<close>

theorem huggingface_truncates_prompt_counterexample:
  "requests (snd (analyzeWithHuggingFace world_up (replicate 1001 CHR ''d'')
       (replicate 1001 CHR ''p'') (load_module env_huggingface))) =
     [HFInference ''microsoft/DialoGPT-large'' (replicate 1000 CHR ''p'')] \<and>
   length (replicate 1000 CHR ''p'') < length (replicate 1001 CHR ''p'')"
  by (simp add: adapter_defs module_defs world_defs Let_def env_huggingface_def)

section \<open>C8: the default model\<close>

text \<open>
  C8. The claim is that an adapter called without a model uses, and reports, the first
  entry of its descriptor's model list. The Anthropic adapter declares that entry as the
  default of its \<open>model\<close> parameter, but \<open>analyzeWithAI\<close> passes \<open>preferredModel\<close>, which
  is \<open>null\<close> when the caller gave no model, and a default parameter does not replace
  \<open>null\<close>: the request and the result carry the model \<open>null\<close>.
\<close>

theorem anthropic_default_model_not_applied:
  "hd (models (anthropic (providers (load_module env_anthropic)))) = ''claude-3-5-sonnet-20241022'' \<and>
   requests_of (analyzeWithAI world_up ''doc'' ''ask'' (Str ''anthropic'') Undefined
       (load_module env_anthropic)) = Some [MessagesCreate Null ''ask''] \<and>
   result_of (analyzeWithAI world_up ''doc'' ''ask'' (Str ''anthropic'') Undefined
       (load_module env_anthropic)) =
     Some (Inr \<lparr>content = Some ''ok'', provider = ''anthropic'', model = Null, usage = None\<rparr>)"
  by (simp add: analyzeWithAI.simps adapter_defs module_defs selection_defs observation_defs
      world_defs Let_def env_anthropic_def)

text \<open>
  Called with the model omitted, the Anthropic adapter does use the first entry; and the
  model each other adapter names is the first entry of its list. The Hugging Face adapter
  reports a different name than the one it calls.
\<close>

lemma anthropic_default_when_omitted:
  "new_requests (load_module env_anthropic)
     (analyzeWithAnthropic w c p Undefined (load_module env_anthropic)) =
     [MessagesCreate (Str (hd (models (anthropic (providers (load_module env_anthropic)))))) p]"
  by (simp add: anthropic_requests) (simp add: module_defs env_anthropic_def)

lemma hardcoded_models_first_entries:
  "map (\<lambda>q. hd (models (snd q))) (entries (initial_providers e)) =
     [''claude-3-5-sonnet-20241022'', hardcoded_model ''xai'', hardcoded_model ''openai'',
      hardcoded_model ''groq'', hardcoded_model ''ollama'', hardcoded_model ''huggingface'']"
  by (simp add: entries_def initial_providers_def hardcoded_model_def)

lemma huggingface_reports_other_name:
  "fst (analyzeWithHuggingFace world_up ''doc'' ''ask'' (load_module env_huggingface)) =
     Inr \<lparr>content = Some ''ok'', provider = ''huggingface'', model = Str ''DialoGPT-large'',
           usage = Some 0\<rparr> \<and>
   hd (models (huggingface (providers (load_module env_huggingface)))) = ''microsoft/DialoGPT-large''"
  by (simp add: adapter_defs module_defs world_defs Let_def env_huggingface_def)

section \<open>C9: the preferred model\<close>

text \<open>
  C9. When the selected provider is not Anthropic, the preferred model plays no part: the
  \<open>switch\<close> gives the same outcome for any two models, so does the whole call, and
  every request the adapter sends that names a model names the adapter's own constant.
\<close>

theorem preferred_model_ignored:
  assumes "select_provider pp s = Some key" and "key \<noteq> ''anthropic''"
  shows "dispatch w key c p m s = dispatch w key c p m' s \<and>
         analyzeWithAI w c p pp pm s = analyzeWithAI w c p pp pm' s \<and>
         list_all (\<lambda>rq. sent_model rq = None \<or> sent_model rq = Some (Str (hardcoded_model key)))
           (new_requests s (dispatch w key c p m s))"
proof -
  have d: "dispatch w key c p m s = dispatch w key c p m' s" for m m'
    using assms(2) by (simp add: dispatch_def)
  have a: "analyzeWithAI w c p pp pm s = analyzeWithAI w c p pp pm' s"
    by (subst analyzeWithAI.simps, subst (2) analyzeWithAI.simps)
       (simp add: assms(1) d[of "default_null pm" "default_null pm'"])
  have l: "list_all (\<lambda>rq. sent_model rq = None \<or> sent_model rq = Some (Str (hardcoded_model key)))
           (new_requests s (dispatch w key c p m s))"
    using assms(2)
    by (simp add: dispatch_def xai_requests openai_requests groq_requests
      huggingface_requests ollama_requests unknown_requests hardcoded_model_def)
  show ?thesis using d a l by simp
qed

theorem preferred_model_ignored_witness:
  "select_provider (Str ''groq'') (load_module env_groq) = Some ''groq'' \<and>
   ''groq'' \<noteq> ''anthropic'' \<and>
   dispatch world_up ''groq'' ''doc'' ''ask'' (Str ''gemma-7b-it'') (load_module env_groq) =
     dispatch world_up ''groq'' ''doc'' ''ask'' Null (load_module env_groq) \<and>
   analyzeWithAI world_up ''doc'' ''ask'' (Str ''groq'') (Str ''gemma-7b-it'') (load_module env_groq) =
     analyzeWithAI world_up ''doc'' ''ask'' (Str ''groq'') Undefined (load_module env_groq) \<and>
   new_requests (load_module env_groq)
     (dispatch world_up ''groq'' ''doc'' ''ask'' (Str ''gemma-7b-it'') (load_module env_groq)) =
     [ChatCompletionsCreate ''groq'' ''llama3-8b-8192'' ''ask'']"
proof -
  have a: "select_provider (Str ''groq'') (load_module env_groq) = Some ''groq''"
    by (simp add: select_provider_def)
  have b: "''groq'' \<noteq> ''anthropic''" by simp
  have r: "new_requests (load_module env_groq)
     (dispatch world_up ''groq'' ''doc'' ''ask'' (Str ''gemma-7b-it'') (load_module env_groq)) =
     [ChatCompletionsCreate ''groq'' ''llama3-8b-8192'' ''ask'']"
    by (simp add: adapter_defs module_defs selection_defs observation_defs world_defs Let_def
        env_groq_def)
  show ?thesis
    using preferred_model_ignored [OF a b, of world_up "''doc''" "''ask''" "Str ''gemma-7b-it''"
        Null "Str ''gemma-7b-it''" Undefined] a b r
    by simp
qed

text \<open>The Anthropic adapter does send the model it is given.\<close>

lemma anthropic_sends_preferred_model:
  "anthropicClient s \<noteq> None \<Longrightarrow>
   new_requests s (dispatch w ''anthropic'' c p (Str m) s) = [MessagesCreate (Str m) p]"
  by (simp add: dispatch_def anthropic_requests)

section \<open>C10: an unknown preferred key\<close>

text \<open>
  C10. When the preferred key is not empty and is none of the six keys, and at least one
  provider is available, the unknown-provider error raised by the \<open>switch\<close> is caught:
  the call is the call preferring the first available provider, it never ends with an
  unknown-provider error, and when that provider's adapter succeeds the call returns the
  adapter's result.
\<close>

theorem unknown_key_falls_back:
  assumes "k \<noteq> []" and "k \<notin> set registry_order" and "getAvailableProviders s = q # qs"
  shows "analyzeWithAI w c p (Str k) pm s = analyzeWithAI w c p (Str (fst q)) Undefined s \<and>
         result_of (analyzeWithAI w c p (Str k) pm s) \<noteq> Some (Inl (UnknownProvider k')) \<and>
         (case dispatch w (fst q) c p Null s of
            (Inr r, s') \<Rightarrow> analyzeWithAI w c p (Str k) pm s = Some (Inr r, s')
          | (Inl e, s') \<Rightarrow> True)"
proof -
  have sel: "select_provider (Str k) s = Some k"
    using assms(1) by (simp add: select_provider_def)
  have eq: "analyzeWithAI w c p (Str k) pm s = analyzeWithAI w c p (Str (fst q)) Undefined s"
    using analyzeWithAI_after_failure[OF sel unknown_dispatch[OF assms(2)], of w c p pm]
    by (simp add: unknown_candidates[OF assms(2)] assms(3))
  have q: "fst q \<in> set registry_order" "fst q \<noteq> []"
    using available_known[OF assms(3)] by simp_all
  have sel': "select_provider (Str (fst q)) s = Some (fst q)"
    using q by (simp add: select_provider_def)
  have rec: "recognised (Str (fst q)) s"
    using q sel' by (simp add: recognised_def)
  have no: "result_of (analyzeWithAI w c p (Str (fst q)) Undefined s) \<noteq> Some (Inl (UnknownProvider k'))"
  proof (cases "analyzeWithAI w c p (Str (fst q)) Undefined s")
    case None
    then show ?thesis by (simp add: result_of_def)
  next
    case (Some y)
    from never_unknown_aux[OF Some] rec show ?thesis
      by (simp add: result_of_def Some)
  qed
  have ok: "(case dispatch w (fst q) c p Null s of
            (Inr r, s') \<Rightarrow> analyzeWithAI w c p (Str (fst q)) Undefined s = Some (Inr r, s')
          | (Inl e, s') \<Rightarrow> True)"
    using analyzeWithAI_after_success[OF sel', of w c p Undefined]
    by (auto split: prod.splits sum.splits)
  show ?thesis using ok by (simp add: eq no split: prod.splits sum.splits)
qed

theorem unknown_key_falls_back_witness:
  "''gemini'' \<noteq> [] \<and> ''gemini'' \<notin> set registry_order \<and>
   getAvailableProviders (load_module env_groq) =
     (''groq'', groq (providers (load_module env_groq))) # [] \<and>
   analyzeWithAI world_up ''doc'' ''ask'' (Str ''gemini'') Undefined (load_module env_groq) =
     analyzeWithAI world_up ''doc'' ''ask'' (Str ''groq'') Undefined (load_module env_groq) \<and>
   result_of (analyzeWithAI world_up ''doc'' ''ask'' (Str ''gemini'') Undefined (load_module env_groq)) \<noteq>
     Some (Inl (UnknownProvider ''gemini'')) \<and>
   analyzeWithAI world_up ''doc'' ''ask'' (Str ''gemini'') Undefined (load_module env_groq) =
     Some (dispatch world_up ''groq'' ''doc'' ''ask'' Null (load_module env_groq))"
proof -
  have a: "''gemini'' \<noteq> []" by simp
  have b: "''gemini'' \<notin> set registry_order" by (simp add: registry_order_def)
  have c: "getAvailableProviders (load_module env_groq) =
     (''groq'', groq (providers (load_module env_groq))) # []"
    by (simp add: module_defs selection_defs env_groq_def)
  have d: "isl (fst (dispatch world_up ''groq'' ''doc'' ''ask'' Null (load_module env_groq))) = False"
    by (simp add: adapter_defs module_defs selection_defs world_defs Let_def env_groq_def)
  show ?thesis
    using unknown_key_falls_back [OF a b c, of world_up "''doc''" "''ask''" Undefined "''gemini''"]
      a b c d
    by (auto split: prod.splits sum.splits)
qed

end
